theory Spec2Isabelle
  imports Complex_Main "HOL-Library.Multiset"
begin

section \<open>Momentum: the practice-time dashboard of \<^verbatim>\<open>App.jsx\<close>\<close>

text \<open>
  The component \<^verbatim>\<open>App\<close> keeps a collection of practice sessions, merges calendar events
  into it (\<^verbatim>\<open>handleSync\<close>), derives a per-day series with a running average
  (\<^verbatim>\<open>chartData\<close>), filters it by the selected tab (\<^verbatim>\<open>filteredData\<close>) and shows a
  trend indicator. The embedding follows the source function by function.

  Conventions of the model:
  \<^item> A JavaScript \<^verbatim>\<open>Date\<close> is its time value, an \<open>int\<close> of milliseconds since the epoch
    (\<^verbatim>\<open>getTime()\<close>). Invalid dates are outside the model.
  \<^item> A JavaScript number that is not a time value (durations, sums, averages) is a \<open>real\<close>:
    arithmetic is exact, the rounding of IEEE doubles is not modelled.
  \<^item> The text \<^verbatim>\<open>d.toISOString().split('T')[0]\<close> is the UTC calendar date \<^verbatim>\<open>YYYY-MM-DD\<close> of
    \<^verbatim>\<open>d\<close>. It is modelled by the number of that UTC day (days since the epoch); for the
    years 0000 to 9999 the texts are ordered, as strings, like the day numbers.
  \<^item> In \<^verbatim>\<open>chartData\<close> local time is UTC plus a fixed offset \<open>tz\<close> in milliseconds
    (positive east of Greenwich), the parameter read by \<^verbatim>\<open>setHours\<close>; its theorems about
    dates are stated for \<open>tz = 0\<close>. In \<^verbatim>\<open>filteredData\<close> the time zone is a parameter
    \<open>z\<close> that gives the offset in force at every instant, so that \<^verbatim>\<open>getDate\<close> and
    \<^verbatim>\<open>setDate\<close> follow the local calendar across a daylight-saving change.
  \<^item> The clock (\<^verbatim>\<open>new Date()\<close>) is the parameter \<open>now\<close>; the clock reads inside one
    function return the same instant.
  \<^item> Strings are lists of 8-bit characters; \<^verbatim>\<open>toLowerCase\<close> is modelled on the ASCII
    letters.
  Rendering (the JSX tree, the chart widget) is modelled only as far as the trend
  indicator goes: the colour, the class of the headline and the delta pill.
\<close>

subsection \<open>Time\<close>

definition msPerDay :: int where
  "msPerDay = 86400000"

text \<open>\<^verbatim>\<open>d.toISOString().split('T')[0]\<close>: the UTC day of the instant \<open>t\<close>.\<close>

definition isoDate :: "int \<Rightarrow> int" where
  "isoDate t = t div msPerDay"

text \<open>\<^verbatim>\<open>d.setHours(0,0,0,0)\<close>: the instant of local midnight of the local day of \<open>t\<close>.\<close>

definition setHours0 :: "int \<Rightarrow> int \<Rightarrow> int" where
  "setHours0 tz t = t - (t + tz) mod msPerDay"

text \<open>
  \<^verbatim>\<open>curr.setDate(curr.getDate() + 1)\<close>: the same local time on the next local day, which
  at a fixed offset is one day of milliseconds later.
\<close>

definition nextDay :: "int \<Rightarrow> int" where
  "nextDay t = t + msPerDay"

subsection \<open>Local time and the calendar\<close>

text \<open>
  A time zone, as the \<^verbatim>\<open>Date\<close> methods see it: \<open>offsetAt z t\<close> is the offset of local time
  from UTC in force at the instant \<open>t\<close>, and \<open>offsetOfLocal z lt\<close> the offset by which the
  local time value \<open>lt\<close> is read back as an instant (where a local time occurs twice or
  not at all, the zone says which offset applies). Both are in milliseconds.
\<close>

record zone =
  offsetAt :: "int \<Rightarrow> int"
  offsetOfLocal :: "int \<Rightarrow> int"

definition LocalTime :: "zone \<Rightarrow> int \<Rightarrow> int" where
  "LocalTime z t = t + offsetAt z t"

definition UTC :: "zone \<Rightarrow> int \<Rightarrow> int" where
  "UTC z lt = lt - offsetOfLocal z lt"

definition Day :: "int \<Rightarrow> int" where
  "Day t = t div msPerDay"

definition TimeWithinDay :: "int \<Rightarrow> int" where
  "TimeWithinDay t = t mod msPerDay"

text \<open>
  The day of the month (1 to 31) of a time value, in the proleptic Gregorian calendar:
  the days are counted from 1 March of year 0 in cycles of 400 years (146097 days).
\<close>

definition DateFromTime :: "int \<Rightarrow> int" where
  "DateFromTime t =
     (let doe = (Day t + 719468) mod 146097;
          yoe = (doe - doe div 1460 + doe div 36524 - doe div 146096) div 365;
          doy = doe - (365 * yoe + yoe div 4 - yoe div 100);
          mp = (5 * doy + 2) div 153
      in doy - (153 * mp + 2) div 5 + 1)"

text \<open>\<^verbatim>\<open>d.getDate()\<close>: the day of the month of \<open>t\<close> in local time.\<close>

definition getDate :: "zone \<Rightarrow> int \<Rightarrow> int" where
  "getDate z t = DateFromTime (LocalTime z t)"

text \<open>
  \<^verbatim>\<open>d.setDate(dt)\<close>: in local time, day \<open>dt\<close> counted from the first day of the month of
  \<open>t\<close> (day 1; zero and negative values reach into the months before), at the time of day
  of \<open>t\<close>; the local time value is then read back as an instant.
\<close>

definition setDate :: "zone \<Rightarrow> int \<Rightarrow> int \<Rightarrow> int" where
  "setDate z t dt =
     (let lt = LocalTime z t;
          firstOfMonth = Day lt - DateFromTime lt + 1;
          day = firstOfMonth + dt - 1;
          newDate = day * msPerDay + TimeWithinDay lt
      in UTC z newDate)"

subsection \<open>Sessions and fetched events\<close>

datatype source_tag = Csv | Google

datatype session_id = StartId int | EventId string

record session =
  sid :: session_id
  start :: int
  duration :: real
  source :: source_tag

text \<open>
  A row of the static dataset \<^verbatim>\<open>CSV_DATA\<close> (the module \<^verbatim>\<open>./data/initialData\<close>): its start,
  as the time value \<^verbatim>\<open>new Date(d.start)\<close> denotes, and its duration in seconds.
\<close>

record csv_row =
  csv_start :: int
  csv_duration :: real

definition initial :: "csv_row list \<Rightarrow> session list" where
  "initial CSV_DATA =
     map (\<lambda>d. \<lparr>sid = StartId (csv_start d), start = csv_start d,
               duration = csv_duration d, source = Csv\<rparr>) CSV_DATA"

text \<open>
  A calendar event as the calendar service returns it. \<open>start_dateTime\<close> is
  \<^verbatim>\<open>e.start.dateTime\<close>: \<open>None\<close> when the field is absent or empty (an all-day event carries
  \<^verbatim>\<open>date\<close> instead), else the time value that \<^verbatim>\<open>new Date(e.start.dateTime)\<close> denotes.
\<close>

record event =
  event_id :: string
  start_dateTime :: "int option"
  end_dateTime :: "int option"

text \<open>The callback of \<^verbatim>\<open>events.result.items.map\<close>; \<open>None\<close> is the \<^verbatim>\<open>null\<close> it returns.\<close>

definition toSession :: "event \<Rightarrow> session option" where
  "toSession e =
     (case start_dateTime e of
        None \<Rightarrow> None
      | Some start_ms \<Rightarrow>
          (case end_dateTime e of
             None \<Rightarrow> None
           | Some end_ms \<Rightarrow>
               Some \<lparr>sid = EventId (event_id e), start = start_ms,
                     duration = real_of_int (end_ms - start_ms) / 1000,
                     source = Google\<rparr>))"

text \<open>\<^verbatim>\<open>items.map(...).filter(Boolean)\<close>.\<close>

definition newSessions :: "event list \<Rightarrow> session list" where
  "newSessions items = map the (filter (\<lambda>r. r \<noteq> None) (map toSession items))"

text \<open>
  The updater passed to \<^verbatim>\<open>setSessions\<close>. \<^verbatim>\<open>Array.prototype.sort\<close> is stable, as is
  \<^const>\<open>sort_key\<close>.
\<close>

definition mergeSessions :: "session list \<Rightarrow> session list \<Rightarrow> session list" where
  "mergeSessions prev new =
     (let existingIds = set (map start prev);
          uniqueNew = filter (\<lambda>n. start n \<notin> existingIds) new
      in sort_key start (prev @ uniqueNew))"

subsection \<open>The sync handler\<close>

record calendar =
  cal_id :: string
  summary :: string

datatype js_error = Rejected string

record app_state =
  sessions :: "session list"
  isSyncing :: bool
  alerts :: "string list"
  consoleErrors :: "js_error list"
  signInCalls :: nat

definition TARGET_CALENDAR_NAME :: string where
  "TARGET_CALENDAR_NAME = ''ATracker''"

text \<open>\<^verbatim>\<open>String.prototype.toLowerCase\<close> on the ASCII letters; other characters are kept.\<close>

definition lowerChar :: "char \<Rightarrow> char" where
  "lowerChar c =
     (let code = (of_char c :: nat) in
      if of_char CHR ''A'' \<le> code \<and> code \<le> of_char CHR ''Z'' then char_of (code + 32) else c)"

definition toLowerCase :: "string \<Rightarrow> string" where
  "toLowerCase s = map lowerChar s"

definition notFoundNotice :: string where
  \<open>notFoundNotice = ''Calendar "'' @ TARGET_CALENDAR_NAME @ ''" not found.''\<close>

definition failedNotice :: string where
  "failedNotice = ''Failed to sync. Check console.''"

text \<open>The predicate of \<^verbatim>\<open>calList.result.items.find\<close>.\<close>

definition matchesTarget :: "calendar \<Rightarrow> bool" where
  "matchesTarget c = (toLowerCase (summary c) = toLowerCase TARGET_CALENDAR_NAME)"

text \<open>The \<^verbatim>\<open>catch\<close> and the \<^verbatim>\<open>finally\<close> block of \<^verbatim>\<open>handleSync\<close>.\<close>

definition catchBlock :: "js_error \<Rightarrow> app_state \<Rightarrow> app_state" where
  "catchBlock err st =
     st\<lparr>consoleErrors := consoleErrors st @ [err], alerts := alerts st @ [failedNotice]\<rparr>"

definition finallyBlock :: "app_state \<Rightarrow> app_state" where
  "finallyBlock st = st\<lparr>isSyncing := False\<rparr>"

text \<open>
  \<^verbatim>\<open>handleSync\<close>, run to completion. The two awaited calls are the parameters
  \<open>calendarList\<close> (the outcome of \<^verbatim>\<open>calendarList.list()\<close>: a rejection or the items) and
  \<open>eventsList\<close> (the outcome of \<^verbatim>\<open>events.list\<close> for a calendar id). \<open>gapiLoaded\<close> and
  \<open>user\<close> are the two guards at its head; \<open>user\<close> is whether a user is signed in.
\<close>

definition handleSync ::
  "bool \<Rightarrow> bool \<Rightarrow> js_error + calendar list \<Rightarrow> (string \<Rightarrow> js_error + event list)
     \<Rightarrow> app_state \<Rightarrow> app_state" where
  "handleSync gapiLoaded user calendarList eventsList st =
     (if \<not> gapiLoaded then st
      else if \<not> user then st\<lparr>signInCalls := signInCalls st + 1\<rparr>
      else
        let st1 = st\<lparr>isSyncing := True\<rparr> in
        (case calendarList of
           Inl err \<Rightarrow> finallyBlock (catchBlock err st1)
         | Inr items \<Rightarrow>
             (case find matchesTarget items of
                None \<Rightarrow>
                  finallyBlock (st1\<lparr>alerts := alerts st1 @ [notFoundNotice], isSyncing := False\<rparr>)
              | Some targetCal \<Rightarrow>
                  (case eventsList (cal_id targetCal) of
                     Inl err \<Rightarrow> finallyBlock (catchBlock err st1)
                   | Inr evs \<Rightarrow>
                       finallyBlock
                         (st1\<lparr>sessions := mergeSessions (sessions st1) (newSessions evs)\<rparr>)))))"

subsection \<open>The day series\<close>

record day_entry =
  date :: int
  average :: real
  dailyPlay :: real

text \<open>
  The field \<^verbatim>\<open>formattedDate\<close> of a data point is a display text computed from \<^verbatim>\<open>date\<close>
  alone; it is left out.

  \<^verbatim>\<open>dayMap\<close> is a JavaScript \<^verbatim>\<open>Map\<close>: it iterates in insertion order, and \<^verbatim>\<open>set\<close> on a key
  already present replaces the value in place. It is an association list in insertion
  order.
\<close>

type_synonym day_map = "(int \<times> real) list"

fun map_get :: "day_map \<Rightarrow> int \<Rightarrow> real option" where
  "map_get [] k = None"
| "map_get ((k', v') # m) k = (if k' = k then Some v' else map_get m k)"

fun map_set :: "day_map \<Rightarrow> int \<Rightarrow> real \<Rightarrow> day_map" where
  "map_set [] k v = [(k, v)]"
| "map_set ((k', v') # m) k v = (if k' = k then (k, v) # m else (k', v') # map_set m k v)"

text \<open>The loop \<^verbatim>\<open>while (curr <= today)\<close> that fills the days with zero; \<open>cur\<close> is the
  time value of \<^verbatim>\<open>curr\<close>.\<close>

function fillDays :: "int \<Rightarrow> int \<Rightarrow> day_map \<Rightarrow> day_map" where
  "fillDays cur today dayMap =
     (if cur \<le> today then fillDays (nextDay cur) today (map_set dayMap (isoDate cur) 0)
      else dayMap)"
  by pat_completeness auto
termination
  by (relation "measure (\<lambda>(cur, today, dayMap). nat (today - cur + 1))")
     (auto simp: nextDay_def msPerDay_def)

declare fillDays.simps [simp del]

text \<open>
  The body of \<^verbatim>\<open>sorted.forEach\<close>: \<^verbatim>\<open>dayMap.has(dStr)\<close> is \<open>map_get\<close> returning a value, and
  that value is \<^verbatim>\<open>dayMap.get(dStr)\<close>.
\<close>

definition populate :: "session \<Rightarrow> day_map \<Rightarrow> day_map" where
  "populate s dayMap =
     (let dStr = isoDate (start s) in
      case map_get dayMap dStr of
        Some v \<Rightarrow> map_set dayMap dStr (v + duration s)
      | None \<Rightarrow> dayMap)"

text \<open>
  The loop \<^verbatim>\<open>for (const [dateStr, dailySeconds] of dayMap)\<close>, from the values of
  \<^verbatim>\<open>cumulativeSeconds\<close> and \<^verbatim>\<open>daysElapsed\<close> on entry; the result lists the data points
  it pushes.
\<close>

fun dataPoints :: "real \<Rightarrow> nat \<Rightarrow> day_map \<Rightarrow> day_entry list" where
  "dataPoints cumulativeSeconds daysElapsed [] = []"
| "dataPoints cumulativeSeconds daysElapsed ((dateStr, dailySeconds) # rest) =
     (let daysElapsed' = daysElapsed + 1;
          cumulativeSeconds' = cumulativeSeconds + dailySeconds;
          averageSoFar = cumulativeSeconds' / real daysElapsed'
      in \<lparr>date = dateStr, average = averageSoFar, dailyPlay = dailySeconds\<rparr>
           # dataPoints cumulativeSeconds' daysElapsed' rest)"

text \<open>
  \<^verbatim>\<open>chartData\<close>. \<^verbatim>\<open>sorted[0]\<close> exists because the collection is not empty; the case on the
  sorted list says so. The variables \<^verbatim>\<open>dailyTotals\<close> and \<^verbatim>\<open>lastDayStr\<close> of the source are
  never read and are left out.
\<close>

definition chartData :: "int \<Rightarrow> int \<Rightarrow> session list \<Rightarrow> day_entry list" where
  "chartData tz now sess =
     (if length sess = 0 then []
      else
        (case sort_key start sess of
           [] \<Rightarrow> []
         | s0 # rest \<Rightarrow>
             let sorted = s0 # rest;
                 startDate = start s0;
                 cur = setHours0 tz startDate;
                 today = setHours0 tz now;
                 dayMap = fillDays cur today [];
                 dayMap' = fold populate sorted dayMap
             in dataPoints 0 0 dayMap'))"

subsection \<open>The range filter and the trend indicator\<close>

definition TABS :: "string list" where
  "TABS = [''1D'', ''7D'', ''30D'', ''1Y'', ''MAX'']"

definition daysToSubtract :: "string \<Rightarrow> int" where
  "daysToSubtract activeTab =
     (let d0 = 0;
          d1 = (if activeTab = ''1D'' then 1 else d0);
          d2 = (if activeTab = ''7D'' then 7 else d1);
          d3 = (if activeTab = ''30D'' then 30 else d2);
          d4 = (if activeTab = ''1Y'' then 365 else d3)
      in d4)"

text \<open>
  \<^verbatim>\<open>filteredData\<close>. \<^verbatim>\<open>now\<close> and \<^verbatim>\<open>cutoff\<close> are both created as \<^verbatim>\<open>new Date()\<close> and hold
  the instant \<open>now\<close>.
\<close>

definition filteredData :: "zone \<Rightarrow> int \<Rightarrow> string \<Rightarrow> day_entry list \<Rightarrow> day_entry list" where
  "filteredData z now activeTab cd =
     (if length cd = 0 then []
      else if activeTab = ''MAX'' then cd
      else
        let cutoff = setDate z now (getDate z now - daysToSubtract activeTab);
            cutoffStr = isoDate cutoff
        in filter (\<lambda>d. date d \<ge> cutoffStr) cd)"

definition startPrice :: "day_entry list \<Rightarrow> real" where
  "startPrice fd = (if length fd > 0 then average (fd ! 0) else 0)"

definition currentPrice :: "day_entry list \<Rightarrow> real" where
  "currentPrice fd = (if length fd > 0 then average (fd ! (length fd - 1)) else 0)"

definition isProfit :: "day_entry list \<Rightarrow> bool" where
  "isProfit fd = (currentPrice fd \<ge> startPrice fd)"

definition color :: "day_entry list \<Rightarrow> string" where
  "color fd = (if isProfit fd then ''#22c55e'' else ''#ef4444'')"

text \<open>
  \<^verbatim>\<open>x.toFixed(0)\<close> for \<open>0 \<le> x < 10\<^sup>2\<^sup>1\<close>: the decimal digits of the integer nearest to \<open>x\<close>,
  the larger one when two are equally near.
\<close>

definition toFixed0 :: "real \<Rightarrow> nat" where
  "toFixed0 x = nat \<lfloor>x + 1 / 2\<rfloor>"

function digits :: "nat \<Rightarrow> string" where
  "digits n =
     (if n < 10 then [char_of (48 + n)] else digits (n div 10) @ [char_of (48 + n mod 10)])"
  by pat_completeness auto
termination
  by (relation "measure id") auto

declare digits.simps [simp del]

text \<open>
  The delta pill of the header: rendered only while no data point is hovered
  (\<^verbatim>\<open>!hoverData\<close>), with its colour class, its arrow and its text.
\<close>

datatype arrow = ArrowUpRight | ArrowDownRight

record pill =
  pill_class :: string
  pill_icon :: arrow
  pill_text :: string

definition deltaShown :: "day_entry list \<Rightarrow> nat" where
  "deltaShown fd = toFixed0 \<bar>currentPrice fd - startPrice fd\<bar>"

definition deltaPill :: "day_entry option \<Rightarrow> string \<Rightarrow> day_entry list \<Rightarrow> pill option" where
  "deltaPill hoverData activeTab fd =
     (if hoverData \<noteq> None then None
      else Some \<lparr>pill_class = (if isProfit fd then ''text-green-400'' else ''text-red-400''),
                 pill_icon = (if isProfit fd then ArrowUpRight else ArrowDownRight),
                 pill_text = digits (deltaShown fd) @ ''s '' @ activeTab\<rparr>)"

text \<open>The colour class of the headline value.\<close>

definition headlineClass :: "day_entry option \<Rightarrow> day_entry list \<Rightarrow> string" where
  "headlineClass hoverData fd =
     (if hoverData \<noteq> None then ''text-white''
      else if isProfit fd then ''text-green-500'' else ''text-red-500'')"

subsection \<open>Example inputs\<close>

text \<open>
  Inputs of the scenarios evaluated below. The instants are milliseconds since the epoch:
  2026-01-01T10:00Z, 2026-01-02T10:00Z and 2026-01-05T10:00Z for the sessions,
  2026-01-02T12:00Z and 2026-01-03T12:00Z for the clock. 2026-01-01 is day 20454.
\<close>

definition practiceJan1 :: "real \<Rightarrow> session" where
  "practiceJan1 secs =
     \<lparr>sid = StartId 1767261600000, start = 1767261600000, duration = secs, source = Csv\<rparr>"

definition practiceJan2 :: "real \<Rightarrow> session" where
  "practiceJan2 secs =
     \<lparr>sid = StartId 1767348000000, start = 1767348000000, duration = secs, source = Csv\<rparr>"

definition practiceJan5 :: "real \<Rightarrow> session" where
  "practiceJan5 secs =
     \<lparr>sid = StartId 1767607200000, start = 1767607200000, duration = secs, source = Csv\<rparr>"

definition noonJan2 :: int where
  "noonJan2 = 1767355200000"

definition noonJan3 :: int where
  "noonJan3 = 1767441600000"

text \<open>
  Two zones: UTC, and New York around the end of daylight-saving time in 2026. In New
  York local time is four hours behind UTC until 2026-11-01T06:00Z and five hours behind
  from then on; local times before 02:00 on 2026-11-01 are read with the summer offset.
  \<open>halfPastMidnightNov2\<close> is 2026-11-02T00:30Z, which is 19:30 on 2026-11-01 in New York;
  2026-11-01 is day 20758.
\<close>

definition utcZone :: zone where
  "utcZone = \<lparr>offsetAt = (\<lambda>t. 0), offsetOfLocal = (\<lambda>lt. 0)\<rparr>"

definition newYork2026 :: zone where
  "newYork2026 =
     \<lparr>offsetAt = (\<lambda>t. if t < 1793512800000 then - 14400000 else - 18000000),
      offsetOfLocal = (\<lambda>lt. if lt < 1793498400000 then - 14400000 else - 18000000)\<rparr>"

definition halfPastMidnightNov2 :: int where
  "halfPastMidnightNov2 = 1793579400000"

definition threeDaySeries :: "day_entry list" where
  "threeDaySeries =
     [\<lparr>date = 20757, average = 600, dailyPlay = 600\<rparr>,
      \<lparr>date = 20758, average = 300, dailyPlay = 0\<rparr>,
      \<lparr>date = 20759, average = 200, dailyPlay = 0\<rparr>]"

definition oneHourEast :: int where
  "oneHourEast = 3600000"

definition idleState :: "session list \<Rightarrow> app_state" where
  "idleState sess =
     \<lparr>sessions = sess, isSyncing = False, alerts = [], consoleErrors = [], signInCalls = 0\<rparr>"


section \<open>Merging fetched events\<close>

lemma newSessions_Nil: "newSessions [] = []"
  by (simp add: newSessions_def)

lemma newSessions_Cons:
  "newSessions (e # es) =
     (case toSession e of None \<Rightarrow> newSessions es | Some s \<Rightarrow> s # newSessions es)"
  by (simp add: newSessions_def split: option.splits)

lemma newSessions_append: "newSessions (xs @ ys) = newSessions xs @ newSessions ys"
  by (simp add: newSessions_def)

lemma toSession_None_iff:
  "toSession e = None \<longleftrightarrow> start_dateTime e = None \<or> end_dateTime e = None"
  by (simp add: toSession_def split: option.splits)

lemma mset_mergeSessions:
  "mset (mergeSessions prev new) =
     mset prev + mset (filter (\<lambda>n. start n \<notin> start ` set prev) new)"
  by (simp add: mergeSessions_def)

lemma length_mergeSessions:
  "length (mergeSessions prev new) =
     length prev + length (filter (\<lambda>n. start n \<notin> start ` set prev) new)"
  by (simp add: mergeSessions_def)

text \<open>
  C3. The merged collection holds the existing records and exactly those fetched records
  whose start timestamp equals the start timestamp of no existing record. For a single
  fetched record: if its start matches an existing one (\<open>d\<close>) it is dropped and the
  collection keeps its size and its records; otherwise (\<open>f\<close>) it is added and the size
  grows by one.
\<close>

theorem merge_drops_exactly_known_starts:
  "mset (mergeSessions prev fetched) =
     mset prev + mset (filter (\<lambda>n. start n \<notin> start ` set prev) fetched)
   \<and> (start d \<in> start ` set prev \<longrightarrow>
        length (mergeSessions prev [d]) = length prev
        \<and> mset (mergeSessions prev [d]) = mset prev)
   \<and> (start f \<notin> start ` set prev \<longrightarrow>
        length (mergeSessions prev [f]) = length prev + 1
        \<and> mset (mergeSessions prev [f]) = mset prev + {#f#})"
  by (simp add: mset_mergeSessions length_mergeSessions)

theorem merge_drops_exactly_known_starts_witness:
  "start \<lparr>sid = EventId ''e1'', start = 7000, duration = 60, source = Google\<rparr>
     \<in> start ` set [\<lparr>sid = StartId 7000, start = 7000, duration = 1800, source = Csv\<rparr>]
   \<and> start \<lparr>sid = EventId ''e2'', start = 5000, duration = 60, source = Google\<rparr>
     \<notin> start ` set [\<lparr>sid = StartId 7000, start = 7000, duration = 1800, source = Csv\<rparr>]
   \<and> length (mergeSessions [\<lparr>sid = StartId 7000, start = 7000, duration = 1800, source = Csv\<rparr>]
        [\<lparr>sid = EventId ''e1'', start = 7000, duration = 60, source = Google\<rparr>]) = 1
   \<and> length (mergeSessions [\<lparr>sid = StartId 7000, start = 7000, duration = 1800, source = Csv\<rparr>]
        [\<lparr>sid = EventId ''e2'', start = 5000, duration = 60, source = Google\<rparr>]) = 2"
  using merge_drops_exactly_known_starts
    [of "[\<lparr>sid = StartId 7000, start = 7000, duration = 1800, source = Csv\<rparr>]" "[]"
        "\<lparr>sid = EventId ''e1'', start = 7000, duration = 60, source = Google\<rparr>"
        "\<lparr>sid = EventId ''e2'', start = 5000, duration = 60, source = Google\<rparr>"]
  by simp


text \<open>
  C6. A fetched event without a start date-time or without an end date-time yields no
  session: the fetched list gives the same new sessions with the event as without it, so
  the merge, and the whole sync, end in the same collection; merging the event alone
  leaves the length of the collection as it was.
\<close>

theorem event_without_times_excluded:
  assumes "start_dateTime e = None \<or> end_dateTime e = None"
  shows "newSessions (xs @ e # ys) = newSessions (xs @ ys)
    \<and> mergeSessions prev (newSessions (xs @ e # ys)) = mergeSessions prev (newSessions (xs @ ys))
    \<and> length (mergeSessions prev (newSessions [e])) = length prev
    \<and> handleSync gapiLoaded user calendarList (\<lambda>c. Inr (xs @ e # ys)) st
        = handleSync gapiLoaded user calendarList (\<lambda>c. Inr (xs @ ys)) st"
proof -
  from assms have none: "toSession e = None"
    by (simp add: toSession_None_iff)
  have drop: "newSessions (xs @ e # ys) = newSessions (xs @ ys)"
    by (simp add: newSessions_append newSessions_Cons none)
  have single: "newSessions [e] = []"
    by (simp add: newSessions_Cons newSessions_Nil none)
  have len: "length (mergeSessions prev (newSessions [e])) = length prev"
    by (simp add: single length_mergeSessions)
  have sync: "handleSync gapiLoaded user calendarList (\<lambda>c. Inr (xs @ e # ys)) st
        = handleSync gapiLoaded user calendarList (\<lambda>c. Inr (xs @ ys)) st"
    by (simp add: handleSync_def drop Let_def split: sum.splits option.splits)
  from drop len sync show ?thesis by simp
qed

theorem event_without_times_excluded_witness:
  "(start_dateTime \<lparr>event_id = ''e2'', start_dateTime = Some 5000, end_dateTime = None\<rparr> = None
     \<or> end_dateTime \<lparr>event_id = ''e2'', start_dateTime = Some 5000, end_dateTime = None\<rparr> = None)
   \<and> length (mergeSessions [\<lparr>sid = StartId 7000, start = 7000, duration = 1800, source = Csv\<rparr>]
        (newSessions [\<lparr>event_id = ''e2'', start_dateTime = Some 5000, end_dateTime = None\<rparr>])) = 1"
  using event_without_times_excluded
    [of "\<lparr>event_id = ''e2'', start_dateTime = Some 5000, end_dateTime = None\<rparr>" "[]" "[]"
        "[\<lparr>sid = StartId 7000, start = 7000, duration = 1800, source = Csv\<rparr>]"
        True True "Inr []"
        "\<lparr>sessions = [], isSyncing = False, alerts = [], consoleErrors = [], signInCalls = 0\<rparr>"]
  by (simp add: newSessions_def mergeSessions_def)

text \<open>
  C10. A fetched event with both a start and an end date-time yields a session that starts
  at the event's start and whose duration is the end timestamp minus the start timestamp,
  in seconds (the timestamps are milliseconds).
\<close>

theorem event_duration_in_seconds:
  assumes "start_dateTime e = Some a" and "end_dateTime e = Some b"
  shows "\<exists>s. toSession e = Some s \<and> start s = a
           \<and> duration s = real_of_int (b - a) / 1000
           \<and> newSessions [e] = [s]"
  using assms by (simp add: toSession_def newSessions_def)

theorem event_duration_in_seconds_witness:
  "\<exists>s. toSession \<lparr>event_id = ''e1'', start_dateTime = Some 5000, end_dateTime = Some 65000\<rparr>
          = Some s \<and> start s = 5000 \<and> duration s = 60"
  using event_duration_in_seconds
    [of "\<lparr>event_id = ''e1'', start_dateTime = Some 5000, end_dateTime = Some 65000\<rparr>"
        5000 65000]
  by auto

section \<open>Failures of the sync\<close>

lemma isSyncing_finallyBlock: "isSyncing (finallyBlock st) = False"
  by (simp add: finallyBlock_def)

lemma sessions_finallyBlock: "sessions (finallyBlock st) = sessions st"
  by (simp add: finallyBlock_def)

lemma alerts_finallyBlock: "alerts (finallyBlock st) = alerts st"
  by (simp add: finallyBlock_def)

lemma sessions_catchBlock: "sessions (catchBlock err st) = sessions st"
  by (simp add: catchBlock_def)

lemma alerts_catchBlock: "alerts (catchBlock err st) = alerts st @ [failedNotice]"
  by (simp add: catchBlock_def)

lemma handleSync_clears_busy:
  "gapiLoaded \<Longrightarrow> user \<Longrightarrow> \<not> isSyncing (handleSync gapiLoaded user calendarList eventsList st)"
  by (simp add: handleSync_def isSyncing_finallyBlock Let_def split: sum.splits option.splits)

lemma matchesTarget_examples:
  "matchesTarget \<lparr>cal_id = ''c1'', summary = ''atracker''\<rparr>"
  "\<not> matchesTarget \<lparr>cal_id = ''c0'', summary = ''Work''\<rparr>"
  by code_simp+

text \<open>
  C7. A sync that reaches the calendar service (the client is loaded and a user is signed
  in) and whose fetch is rejected, for the calendar list or for the events, or that finds
  no calendar of the target name, leaves the session collection as it was, adds exactly
  one notice to the alerts shown to the user (the not-found notice when no calendar
  matches, the failure notice otherwise), and ends with the busy flag cleared. The busy
  flag is cleared at the end of every such sync, whatever the service answers.
\<close>

theorem failed_sync_keeps_sessions:
  assumes loaded: "gapiLoaded" and signedIn: "user"
    and fails: "calendarList = Inl err
       \<or> (\<exists>items. calendarList = Inr items
             \<and> (find matchesTarget items = None
                 \<or> (\<exists>c. find matchesTarget items = Some c \<and> eventsList (cal_id c) = Inl err)))"
  shows "sessions (handleSync gapiLoaded user calendarList eventsList st) = sessions st
    \<and> alerts (handleSync gapiLoaded user calendarList eventsList st)
        = alerts st @ [if \<exists>items. calendarList = Inr items \<and> find matchesTarget items = None
                       then notFoundNotice else failedNotice]
    \<and> \<not> isSyncing (handleSync gapiLoaded user calendarList eventsList st)
    \<and> \<not> isSyncing (handleSync gapiLoaded user anyCalendarList anyEventsList st)"
proof -
  let ?st' = "handleSync gapiLoaded user calendarList eventsList st"
  have busy: "\<not> isSyncing ?st'"
    "\<not> isSyncing (handleSync gapiLoaded user anyCalendarList anyEventsList st)"
    using loaded signedIn by (simp_all add: handleSync_clears_busy)
  from fails consider
      (reject) "calendarList = Inl err"
    | (missing) items where "calendarList = Inr items" "find matchesTarget items = None"
    | (events) items c where "calendarList = Inr items" "find matchesTarget items = Some c"
        "eventsList (cal_id c) = Inl err"
    by blast
  then have "sessions ?st' = sessions st
    \<and> alerts ?st' = alerts st @ [if \<exists>items. calendarList = Inr items \<and> find matchesTarget items = None
                       then notFoundNotice else failedNotice]"
  proof cases
    case reject
    with loaded signedIn show ?thesis
      by (simp add: handleSync_def sessions_finallyBlock alerts_finallyBlock
          sessions_catchBlock alerts_catchBlock)
  next
    case missing
    with loaded signedIn show ?thesis
      by (simp add: handleSync_def sessions_finallyBlock alerts_finallyBlock)
  next
    case events
    with loaded signedIn show ?thesis
      by (simp add: handleSync_def sessions_finallyBlock alerts_finallyBlock
          sessions_catchBlock alerts_catchBlock)
  qed
  with busy show ?thesis by simp
qed

theorem failed_sync_keeps_sessions_witness:
  "sessions (handleSync True True (Inl (Rejected ''offline'')) (\<lambda>c. Inr [])
       (idleState [practiceJan1 600])) = [practiceJan1 600]
   \<and> alerts (handleSync True True (Inl (Rejected ''offline'')) (\<lambda>c. Inr [])
       (idleState [practiceJan1 600])) = [failedNotice]
   \<and> sessions (handleSync True True (Inr [\<lparr>cal_id = ''c0'', summary = ''Work''\<rparr>]) (\<lambda>c. Inr [])
       (idleState [practiceJan1 600])) = [practiceJan1 600]
   \<and> alerts (handleSync True True (Inr [\<lparr>cal_id = ''c0'', summary = ''Work''\<rparr>]) (\<lambda>c. Inr [])
       (idleState [practiceJan1 600])) = [notFoundNotice]
   \<and> sessions (handleSync True True (Inr [\<lparr>cal_id = ''c1'', summary = ''atracker''\<rparr>])
       (\<lambda>c. Inl (Rejected ''offline'')) (idleState [practiceJan1 600])) = [practiceJan1 600]
   \<and> alerts (handleSync True True (Inr [\<lparr>cal_id = ''c1'', summary = ''atracker''\<rparr>])
       (\<lambda>c. Inl (Rejected ''offline'')) (idleState [practiceJan1 600])) = [failedNotice]
   \<and> \<not> isSyncing (handleSync True True (Inr [\<lparr>cal_id = ''c1'', summary = ''atracker''\<rparr>])
       (\<lambda>c. Inl (Rejected ''offline'')) (idleState [practiceJan1 600]))"
  using
    failed_sync_keeps_sessions [where gapiLoaded = True and user = True
      and calendarList = "Inl (Rejected ''offline'')" and err = "Rejected ''offline''"
      and eventsList = "\<lambda>c. Inr []" and st = "idleState [practiceJan1 600]"
      and anyCalendarList = "Inr []" and anyEventsList = "\<lambda>c. Inr []"]
    failed_sync_keeps_sessions [where gapiLoaded = True and user = True
      and calendarList = "Inr [\<lparr>cal_id = ''c0'', summary = ''Work''\<rparr>]"
      and err = "Rejected ''offline''"
      and eventsList = "\<lambda>c. Inr []" and st = "idleState [practiceJan1 600]"
      and anyCalendarList = "Inr []" and anyEventsList = "\<lambda>c. Inr []"]
    failed_sync_keeps_sessions [where gapiLoaded = True and user = True
      and calendarList = "Inr [\<lparr>cal_id = ''c1'', summary = ''atracker''\<rparr>]"
      and err = "Rejected ''offline''"
      and eventsList = "\<lambda>c. Inl (Rejected ''offline'')" and st = "idleState [practiceJan1 600]"
      and anyCalendarList = "Inr []" and anyEventsList = "\<lambda>c. Inr []"]
  by (simp add: matchesTarget_examples idleState_def)

section \<open>The day series\<close>

subsection \<open>The day map\<close>

lemma map_get_None_iff: "map_get m k = None \<longleftrightarrow> k \<notin> fst ` set m"
  by (induction m) force+

lemma map_set_keys:
  "map fst (map_set m k v) = (if k \<in> fst ` set m then map fst m else map fst m @ [k])"
  by (induction m) force+

lemma map_set_fresh: "k \<notin> fst ` set m \<Longrightarrow> map_set m k v = m @ [(k, v)]"
  by (induction m) force+

lemma map_get_map_set:
  "map_get (map_set m k v) k' = (if k' = k then Some v else map_get m k')"
  by (induction m) auto

lemma map_get_member: "distinct (map fst m) \<Longrightarrow> (k, v) \<in> set m \<Longrightarrow> map_get m k = Some v"
  by (induction m) force+

lemma map_get_zeros:
  "map_get (map (\<lambda>k. (k, 0)) ks) k = (if k \<in> set ks then Some 0 else None)"
  by (induction ks) auto

subsection \<open>Filling the days\<close>

lemma isoDate_nextDay: "isoDate (nextDay t) = isoDate t + 1"
  by (simp add: isoDate_def nextDay_def msPerDay_def)

text \<open>
  Started on a map whose keys are all earlier days, the loop appends one zero entry per
  day, from the day of \<open>cur\<close> on, once for every whole day between \<open>cur\<close> and \<open>today\<close>.
\<close>

lemma fillDays_appends:
  "\<forall>k \<in> fst ` set m. k < isoDate cur \<Longrightarrow>
   fillDays cur today m
     = m @ map (\<lambda>k. (k, 0)) [isoDate cur .. isoDate cur + (today - cur) div msPerDay]"
proof (induction cur today m rule: fillDays.induct)
  case (1 cur today dayMap)
  show ?case
  proof (cases "cur \<le> today")
    case False
    then have "(today - cur) div msPerDay < 0"
      by (simp add: msPerDay_def div_neg_pos_less0 del: div_neg_pos_less0)
    with False show ?thesis
      by (simp add: fillDays.simps [of cur today dayMap])
  next
    case True
    let ?k = "isoDate cur"
    let ?q = "(today - cur) div msPerDay"
    from "1.prems" have fresh: "?k \<notin> fst ` set dayMap" by auto
    then have set: "map_set dayMap ?k 0 = dayMap @ [(?k, 0)]"
      by (rule map_set_fresh)
    from "1.prems" have below: "\<forall>k \<in> fst ` set (map_set dayMap ?k 0). k < isoDate (nextDay cur)"
      by (auto simp: set isoDate_nextDay)
    from True have q: "0 \<le> ?q"
      by (simp add: msPerDay_def pos_imp_zdiv_nonneg_iff)
    have step: "(today - nextDay cur) div msPerDay = ?q - 1"
      by (simp add: nextDay_def msPerDay_def)
    have "fillDays cur today dayMap = fillDays (nextDay cur) today (map_set dayMap ?k 0)"
      using True by (simp add: fillDays.simps [of cur today dayMap])
    also have "\<dots> = map_set dayMap ?k 0
        @ map (\<lambda>k. (k, 0)) [isoDate (nextDay cur) .. isoDate (nextDay cur) + (today - nextDay cur) div msPerDay]"
      using "1.IH" [OF True below] .
    also have "\<dots> = dayMap @ (?k, 0) # map (\<lambda>k. (k, 0)) [?k + 1 .. ?k + ?q]"
      by (simp add: set isoDate_nextDay step)
    also have "\<dots> = dayMap @ map (\<lambda>k. (k, 0)) [?k .. ?k + ?q]"
      using q by (simp add: upto_rec1 [of ?k "?k + ?q"])
    finally show ?thesis .
  qed
qed

lemma setHours0_eq: "setHours0 tz t = msPerDay * ((t + tz) div msPerDay) - tz"
proof -
  have "(t + tz) = msPerDay * ((t + tz) div msPerDay) + (t + tz) mod msPerDay"
    by simp
  then show ?thesis unfolding setHours0_def by linarith
qed

lemma isoDate_setHours0_diff:
  "isoDate (setHours0 tz a) + (setHours0 tz b - setHours0 tz a) div msPerDay
     = isoDate (setHours0 tz b)"
proof -
  let ?qa = "(a + tz) div msPerDay" and ?qb = "(b + tz) div msPerDay"
  have D: "msPerDay \<noteq> 0" by (simp add: msPerDay_def)
  have diff: "setHours0 tz b - setHours0 tz a = (?qb - ?qa) * msPerDay"
    by (simp add: setHours0_eq algebra_simps)
  have b: "setHours0 tz b = setHours0 tz a + (?qb - ?qa) * msPerDay"
    using diff by simp
  have "isoDate (setHours0 tz b) = isoDate (setHours0 tz a) + (?qb - ?qa)"
    unfolding isoDate_def b using D by simp
  moreover have "(setHours0 tz b - setHours0 tz a) div msPerDay = ?qb - ?qa"
    unfolding diff using D by simp
  ultimately show ?thesis by simp
qed

lemma fillDays_from_midnights:
  "fillDays (setHours0 tz a) (setHours0 tz b) []
     = map (\<lambda>k. (k, 0)) [isoDate (setHours0 tz a) .. isoDate (setHours0 tz b)]"
  using fillDays_appends [of "[]" "setHours0 tz a" "setHours0 tz b"]
  by (simp add: isoDate_setHours0_diff)

lemma isoDate_setHours0_utc: "isoDate (setHours0 0 t) = isoDate t"
  by (simp add: setHours0_eq isoDate_def msPerDay_def)

subsection \<open>Adding the play time\<close>

lemma populate_keys: "map fst (populate s m) = map fst m"
proof (cases "map_get m (isoDate (start s))")
  case None
  then show ?thesis by (simp add: populate_def)
next
  case (Some v)
  then have "isoDate (start s) \<in> fst ` set m"
    using map_get_None_iff [of m "isoDate (start s)"] by simp
  with Some show ?thesis by (simp add: populate_def map_set_keys)
qed

lemma fold_populate_keys: "map fst (fold populate ss m) = map fst m"
  by (induction ss arbitrary: m) (simp_all add: populate_keys)

lemma map_get_populate:
  "map_get (populate s m) k
     = map_option (\<lambda>v. if isoDate (start s) = k then v + duration s else v) (map_get m k)"
proof (cases "map_get m (isoDate (start s))")
  case None
  then show ?thesis by (cases "map_get m k") (auto simp: populate_def)
next
  case (Some v)
  then show ?thesis by (cases "map_get m k") (auto simp: populate_def map_get_map_set)
qed

lemma map_get_fold_populate:
  "map_get (fold populate ss m) k
     = map_option (\<lambda>v. v + sum_list (map duration (filter (\<lambda>s. isoDate (start s) = k) ss)))
         (map_get m k)"
proof (induction ss arbitrary: m)
  case Nil
  then show ?case by (simp add: option.map_ident)
next
  case (Cons s ss)
  show ?case
    by (cases "map_get m k") (simp_all add: Cons.IH map_get_populate add.assoc)
qed

lemma sum_durations_sort_key:
  "sum_list (map duration (filter P (sort_key start sess)))
     = sum_list (map duration (filter P sess))"
proof -
  have "mset (map duration (filter P (sort_key start sess))) = mset (map duration (filter P sess))"
    by simp
  then show ?thesis by (metis sum_mset_sum_list)
qed

subsection \<open>The data points\<close>

lemma dataPoints_dates: "map date (dataPoints c n m) = map fst m"
  by (induction m arbitrary: c n) (auto simp: Let_def)

lemma dataPoints_dailyPlay: "map dailyPlay (dataPoints c n m) = map snd m"
  by (induction m arbitrary: c n) (auto simp: Let_def)

lemma length_dataPoints: "length (dataPoints c n m) = length m"
  by (induction m arbitrary: c n) (auto simp: Let_def)

lemma dataPoints_member:
  "e \<in> set (dataPoints c n m) \<Longrightarrow> (date e, dailyPlay e) \<in> set m"
proof (induction m arbitrary: c n)
  case Nil
  then show ?case by simp
next
  case (Cons p m)
  obtain k v where p: "p = (k, v)" by (cases p)
  from Cons.prems consider "e = \<lparr>date = k, average = (c + v) / real (n + 1), dailyPlay = v\<rparr>"
    | "e \<in> set (dataPoints (c + v) (n + 1) m)"
    by (auto simp: p Let_def)
  then show ?case
  proof cases
    case 1
    then show ?thesis by (simp add: p)
  next
    case 2
    from Cons.IH [OF this] show ?thesis by simp
  qed
qed

lemma dataPoints_average:
  "i < length m \<Longrightarrow>
     average (dataPoints c n m ! i) = (c + sum_list (map snd (take (Suc i) m))) / real (n + Suc i)"
proof (induction m arbitrary: c n i)
  case Nil
  then show ?case by simp
next
  case (Cons p m)
  obtain k v where p: "p = (k, v)" by (cases p)
  show ?case
  proof (cases i)
    case 0
    then show ?thesis by (simp add: p Let_def)
  next
    case (Suc j)
    with Cons.prems have "j < length m" by simp
    from Cons.IH [OF this, of "c + v" "n + 1"] Suc show ?thesis
      by (simp add: p Let_def add.assoc)
  qed
qed

lemma running_average:
  assumes "1 \<le> N" and "N \<le> length (dataPoints 0 0 m)"
  shows "average (dataPoints 0 0 m ! (N - 1))
     = sum_list (map dailyPlay (take N (dataPoints 0 0 m))) / real N"
proof -
  from assms have i: "N - 1 < length m" and N: "Suc (N - 1) = N"
    by (simp_all add: length_dataPoints)
  have "map dailyPlay (take N (dataPoints 0 0 m)) = map snd (take N m)"
    by (simp add: dataPoints_dailyPlay flip: take_map)
  with dataPoints_average [OF i, of 0 0] N show ?thesis by simp
qed

subsection \<open>The series as a whole\<close>

lemma sorted_hd_Min:
  assumes "sorted (map f xs)" and "xs \<noteq> []"
  shows "f (hd xs) = Min (f ` set xs)"
proof -
  from assms obtain x rest where xs: "xs = x # rest" by (cases xs) auto
  with assms have "\<forall>y \<in> set rest. f x \<le> f y" by auto
  then have "Min (f ` set xs) = f x"
    unfolding xs by (intro Min_eqI) auto
  then show ?thesis by (simp add: xs)
qed

text \<open>The day map of a non-empty collection, before the averages are taken.\<close>

lemma chartData_nonempty:
  assumes "sess \<noteq> []"
  shows "chartData tz now sess
    = dataPoints 0 0
        (fold populate (sort_key start sess)
          (fillDays (setHours0 tz (Min (start ` set sess))) (setHours0 tz now) []))"
proof (cases "sort_key start sess")
  case Nil
  then have "length (sort_key start sess) = 0" by simp
  with assms show ?thesis by simp
next
  case (Cons s0 rest)
  have "sorted (map start (sort_key start sess))"
    by simp
  moreover have "sort_key start sess \<noteq> []"
    by (simp add: Cons)
  ultimately have "start (hd (sort_key start sess)) = Min (start ` set (sort_key start sess))"
    by (rule sorted_hd_Min)
  moreover have "hd (sort_key start sess) = s0"
    by (simp add: Cons)
  ultimately have "start s0 = Min (start ` set sess)"
    by (simp only: set_sort)
  with assms show ?thesis
    by (simp add: chartData_def Let_def Cons)
qed

lemma chartData_is_dataPoints: "\<exists>m. chartData tz now sess = dataPoints 0 0 m"
proof (cases "sess = []")
  case True
  then have "chartData tz now sess = dataPoints 0 0 []"
    by (simp add: chartData_def)
  then show ?thesis ..
next
  case False
  from chartData_nonempty [OF this] show ?thesis ..
qed

text \<open>
  The dates of the series: every day from the UTC day of the local midnight before the
  earliest session to the UTC day of the local midnight before the clock.
\<close>

lemma chartData_dates:
  assumes "sess \<noteq> []"
  shows "map date (chartData tz now sess)
    = [isoDate (setHours0 tz (Min (start ` set sess))) .. isoDate (setHours0 tz now)]"
  by (simp add: chartData_nonempty [OF assms] dataPoints_dates fold_populate_keys
      fillDays_from_midnights comp_def)

text \<open>The total of an entry: the durations of the sessions that start on its UTC day.\<close>

lemma chartData_dailyPlay:
  assumes "sess \<noteq> []" and e: "e \<in> set (chartData tz now sess)"
  shows "dailyPlay e = sum_list (map duration (filter (\<lambda>s. isoDate (start s) = date e) sess))"
proof -
  let ?days = "[isoDate (setHours0 tz (Min (start ` set sess))) .. isoDate (setHours0 tz now)]"
  let ?zeros = "map (\<lambda>k. (k, 0::real)) ?days"
  let ?filled = "fold populate (sort_key start sess) ?zeros"
  have cd: "chartData tz now sess = dataPoints 0 0 ?filled"
    by (simp add: chartData_nonempty [OF assms(1)] fillDays_from_midnights)
  have keys: "map fst ?filled = ?days"
    by (simp add: fold_populate_keys comp_def)
  from e have mem: "(date e, dailyPlay e) \<in> set ?filled"
    unfolding cd by (rule dataPoints_member)
  then have "date e \<in> set (map fst ?filled)"
    by (metis fst_conv image_eqI set_map)
  then have day: "date e \<in> set ?days"
    by (simp only: keys)
  have "distinct (map fst ?filled)"
    by (simp only: keys distinct_upto)
  from map_get_member [OF this mem] have "map_get ?filled (date e) = Some (dailyPlay e)" .
  moreover have "map_get ?zeros (date e) = Some 0"
    using day by (simp only: map_get_zeros if_True)
  ultimately show ?thesis
    by (simp add: map_get_fold_populate sum_durations_sort_key)
qed

lemma sum_list_filter_disj:
  fixes f :: "'a \<Rightarrow> real"
  assumes "\<forall>x \<in> set xs. \<not> (P x \<and> Q x)"
  shows "sum_list (map f (filter (\<lambda>x. P x \<or> Q x) xs))
     = sum_list (map f (filter P xs)) + sum_list (map f (filter Q xs))"
  using assms by (induction xs) auto

lemma sum_by_day:
  fixes f :: "'a \<Rightarrow> real"
  assumes "distinct ks"
  shows "sum_list (map (\<lambda>k. sum_list (map f (filter (\<lambda>x. g x = k) xs))) ks)
     = sum_list (map f (filter (\<lambda>x. g x \<in> set ks) xs))"
  using assms
proof (induction ks)
  case Nil
  then show ?case by simp
next
  case (Cons k ks)
  then have "\<forall>x \<in> set xs. \<not> (g x = k \<and> g x \<in> set ks)" by auto
  from sum_list_filter_disj [OF this, of f] Cons show ?case by simp
qed

text \<open>
  The totals of the days add up to the durations of the sessions that start on a day of
  the series.
\<close>

lemma chartData_total:
  "sum_list (map dailyPlay (chartData tz now sess))
     = sum_list (map duration
         (filter (\<lambda>s. isoDate (start s) \<in> set (map date (chartData tz now sess))) sess))"
proof (cases "sess = []")
  case True
  then show ?thesis by (simp add: chartData_def)
next
  case False
  let ?cd = "chartData tz now sess"
  let ?total = "\<lambda>k. sum_list (map duration (filter (\<lambda>s. isoDate (start s) = k) sess))"
  have "map dailyPlay ?cd = map (\<lambda>e. ?total (date e)) ?cd"
    using chartData_dailyPlay [OF False] by (intro map_cong) simp_all
  also have "\<dots> = map ?total (map date ?cd)"
    by (simp add: comp_def)
  finally have "sum_list (map dailyPlay ?cd) = sum_list (map ?total (map date ?cd))"
    by (rule arg_cong)
  also have "\<dots> = sum_list (map duration (filter (\<lambda>s. isoDate (start s) \<in> set (map date ?cd)) sess))"
  proof (rule sum_by_day)
    show "distinct (map date ?cd)"
      by (simp only: chartData_dates [OF False] distinct_upto)
  qed
  finally show ?thesis .
qed

text \<open>The running average, entry by entry.\<close>

lemma chartData_nth_average:
  assumes "1 \<le> N" and "N \<le> length (chartData tz now sess)"
  shows "average (chartData tz now sess ! (N - 1))
     = sum_list (map dailyPlay (take N (chartData tz now sess))) / real N"
proof -
  obtain m where cd: "chartData tz now sess = dataPoints 0 0 m"
    using chartData_is_dataPoints by blast
  from assms show ?thesis
    unfolding cd by (rule running_average)
qed

lemma chartData_last_average:
  assumes "chartData tz now sess \<noteq> []"
  shows "average (last (chartData tz now sess))
     = sum_list (map dailyPlay (chartData tz now sess)) / real (length (chartData tz now sess))"
proof -
  let ?cd = "chartData tz now sess"
  from assms have "1 \<le> length ?cd" by (cases ?cd) simp_all
  from chartData_nth_average [OF this order_refl] assms show ?thesis
    by (simp add: last_conv_nth)
qed

lemma chartData_last_average_in_series:
  assumes "chartData tz now sess \<noteq> []"
  shows "average (last (chartData tz now sess))
     = sum_list (map duration
         (filter (\<lambda>s. isoDate (start s) \<in> set (map date (chartData tz now sess))) sess))
       / real (length (chartData tz now sess))"
  using chartData_last_average [OF assms] by (simp only: chartData_total)

lemma isoDate_mono: "a \<le> b \<Longrightarrow> isoDate a \<le> isoDate b"
  by (simp add: isoDate_def msPerDay_def zdiv_mono1)

text \<open>Where local time is UTC: the dates of the series and the sessions they cover.\<close>

lemma chartData_utc_dates:
  assumes "sess \<noteq> []"
  shows "map date (chartData 0 now sess) = [isoDate (Min (start ` set sess)) .. isoDate now]"
  by (simp add: chartData_dates [OF assms] isoDate_setHours0_utc)

lemma chartData_utc_last_average:
  assumes "sess \<noteq> []" and past: "\<forall>s \<in> set sess. isoDate (start s) \<le> isoDate now"
  shows "average (last (chartData 0 now sess))
     = sum_list (map duration sess)
       / real_of_int (isoDate now - isoDate (Min (start ` set sess)) + 1)"
proof -
  let ?cd = "chartData 0 now sess"
  let ?first = "isoDate (Min (start ` set sess))"
  have dates: "map date ?cd = [?first .. isoDate now]"
    using assms(1) by (rule chartData_utc_dates)
  have "Min (start ` set sess) \<in> start ` set sess"
    using assms(1) by (intro Min_in) simp_all
  with past have first: "?first \<le> isoDate now" by auto
  have "length (map date ?cd) = length [?first .. isoDate now]"
    by (simp only: dates)
  with first have len: "real (length ?cd) = real_of_int (isoDate now - ?first + 1)"
    by simp
  from first len have nonempty: "?cd \<noteq> []" by auto
  have covered: "isoDate (start s) \<in> set (map date ?cd)" if "s \<in> set sess" for s
  proof -
    from that have "Min (start ` set sess) \<le> start s" by simp
    then have "?first \<le> isoDate (start s)" by (rule isoDate_mono)
    with past that show ?thesis by (simp add: dates)
  qed
  then have "filter (\<lambda>s. isoDate (start s) \<in> set (map date ?cd)) sess = sess"
    by (simp add: filter_id_conv)
  with chartData_last_average_in_series [OF nonempty] len show ?thesis
    by simp
qed

text \<open>Two days, the second one today: the series from the totals of the two days.\<close>

lemma chartData_utc_two_days:
  assumes "sess \<noteq> []" and today: "isoDate now = isoDate (Min (start ` set sess)) + 1"
    and one: "sum_list (map duration
        (filter (\<lambda>s. isoDate (start s) = isoDate (Min (start ` set sess))) sess)) = a"
    and two: "sum_list (map duration (filter (\<lambda>s. isoDate (start s) = isoDate now) sess)) = b"
  shows "chartData 0 now sess
    = [\<lparr>date = isoDate (Min (start ` set sess)), average = a, dailyPlay = a\<rparr>,
       \<lparr>date = isoDate now, average = (a + b) / 2, dailyPlay = b\<rparr>]"
proof -
  let ?cd = "chartData 0 now sess"
  let ?first = "isoDate (Min (start ` set sess))"
  have "[?first .. ?first + 1] = [?first, ?first + 1]"
    by (simp add: upto_rec1)
  with chartData_utc_dates [OF assms(1), of now] today
  have dates: "map date ?cd = [?first, isoDate now]" by simp
  then obtain e1 e2 where cd: "?cd = [e1, e2]"
    and d1: "date e1 = ?first" and d2: "date e2 = isoDate now"
    by auto
  have p1: "dailyPlay e1 = a"
    using chartData_dailyPlay [OF assms(1), of e1 0 now] one by (simp add: cd d1)
  have p2: "dailyPlay e2 = b"
    using chartData_dailyPlay [OF assms(1), of e2 0 now] two by (simp add: cd d2)
  have a1: "average e1 = a"
    using chartData_nth_average [of 1 0 now sess] by (simp add: cd p1)
  have a2: "average e2 = (a + b) / 2"
    using chartData_nth_average [of 2 0 now sess] by (simp add: cd p1 p2)
  from d1 d2 p1 p2 a1 a2 show ?thesis
    by (simp add: cd)
qed

subsection \<open>Evaluated scenarios\<close>

lemma chartData_two_days:
  "chartData 0 noonJan2 [practiceJan1 600, practiceJan2 0]
     = [\<lparr>date = 20454, average = 600, dailyPlay = 600\<rparr>,
        \<lparr>date = 20455, average = 300, dailyPlay = 0\<rparr>]"
  by code_simp

lemma chartData_future_session: "chartData 0 noonJan2 [practiceJan5 600] = []"
  by code_simp

lemma chartData_one_hour_east:
  "chartData oneHourEast noonJan2 [practiceJan2 600]
     = [\<lparr>date = 20454, average = 0, dailyPlay = 0\<rparr>]"
  by code_simp

lemma chartData_session_after_today:
  "chartData 0 noonJan3 [practiceJan1 600, practiceJan5 999]
     = [\<lparr>date = 20454, average = 600, dailyPlay = 600\<rparr>,
        \<lparr>date = 20455, average = 300, dailyPlay = 0\<rparr>,
        \<lparr>date = 20456, average = 200, dailyPlay = 0\<rparr>]"
  by code_simp

lemma chartData_three_days:
  "chartData 0 noonJan3 [practiceJan1 100]
     = [\<lparr>date = 20454, average = 100, dailyPlay = 100\<rparr>,
        \<lparr>date = 20455, average = 50, dailyPlay = 0\<rparr>,
        \<lparr>date = 20456, average = 100 / 3, dailyPlay = 0\<rparr>]"
  by code_simp

lemma isoDate_examples:
  "isoDate (start (practiceJan1 x)) = 20454"
  "isoDate (start (practiceJan2 x)) = 20455"
  "isoDate (start (practiceJan5 x)) = 20458"
  "isoDate noonJan2 = 20455"
  "isoDate noonJan3 = 20456"
  by (simp_all add: isoDate_def msPerDay_def practiceJan1_def practiceJan2_def
      practiceJan5_def noonJan2_def noonJan3_def)

lemma duration_examples:
  "duration (practiceJan1 x) = x"
  "duration (practiceJan2 x) = x"
  "duration (practiceJan5 x) = x"
  by (simp_all add: practiceJan1_def practiceJan2_def practiceJan5_def)

lemma digits_examples: "digits 67 = ''67''" "digits 100 = ''100''" "digits 300 = ''300''"
  by code_simp+

section \<open>The claims about the day series\<close>

text \<open>
  C1, as the code has it. Where local time is UTC and the earliest session does not start
  on a later day than today, the series of a non-empty collection has one entry for every
  calendar day from the day of the earliest session through today: the dates are exactly
  these days in ascending order without a gap, their number is the number of days between
  the two plus one, and an entry on whose day no session starts has total zero (every
  entry's total is the sum of the durations of the sessions that start on its day).
\<close>

theorem day_series_covers_every_day:
  assumes "sess \<noteq> []" and "isoDate (Min (start ` set sess)) \<le> isoDate now"
  shows "map date (chartData 0 now sess) = [isoDate (Min (start ` set sess)) .. isoDate now]
    \<and> int (length (chartData 0 now sess)) = isoDate now - isoDate (Min (start ` set sess)) + 1
    \<and> sorted_wrt (<) (map date (chartData 0 now sess))
    \<and> (\<forall>e \<in> set (chartData 0 now sess).
          (\<forall>s \<in> set sess. isoDate (start s) \<noteq> date e) \<longrightarrow> dailyPlay e = 0)
    \<and> (\<forall>e \<in> set (chartData 0 now sess).
          dailyPlay e = sum_list (map duration (filter (\<lambda>s. isoDate (start s) = date e) sess)))"
proof -
  let ?cd = "chartData 0 now sess"
  let ?first = "isoDate (Min (start ` set sess))"
  have dates: "map date ?cd = [?first .. isoDate now]"
    by (simp add: chartData_dates [OF assms(1)] isoDate_setHours0_utc)
  have "length (map date ?cd) = length [?first .. isoDate now]"
    by (simp only: dates)
  with assms(2) have len: "int (length ?cd) = isoDate now - ?first + 1"
    by simp
  have asc: "sorted_wrt (<) (map date ?cd)"
    by (simp only: dates sorted_wrt_upto)
  have total: "dailyPlay e = sum_list (map duration (filter (\<lambda>s. isoDate (start s) = date e) sess))"
    if "e \<in> set ?cd" for e
    using assms(1) that by (rule chartData_dailyPlay)
  have rest: "dailyPlay e = 0"
    if "e \<in> set ?cd" and none: "\<forall>s \<in> set sess. isoDate (start s) \<noteq> date e" for e
  proof -
    from none have "filter (\<lambda>s. isoDate (start s) = date e) sess = []"
      by (simp add: filter_empty_conv)
    with total [OF that(1)] show ?thesis by simp
  qed
  from dates len asc rest total show ?thesis by blast
qed

theorem day_series_covers_every_day_witness:
  "[practiceJan1 600, practiceJan2 0] \<noteq> []
   \<and> isoDate (Min (start ` set [practiceJan1 600, practiceJan2 0])) \<le> isoDate noonJan2
   \<and> map date (chartData 0 noonJan2 [practiceJan1 600, practiceJan2 0]) = [20454, 20455]
   \<and> int (length (chartData 0 noonJan2 [practiceJan1 600, practiceJan2 0])) = 2"
  using day_series_covers_every_day [of "[practiceJan1 600, practiceJan2 0]" noonJan2]
  by (simp add: practiceJan1_def practiceJan2_def noonJan2_def isoDate_def msPerDay_def)

text \<open>
  The claim as written fails in two ways. A collection whose only session lies in the
  future has an empty series, where the claim counts at least one entry. One hour east of
  UTC a session of today, on 2026-01-02, gives a single entry dated 2026-01-01 with total
  zero: local midnight, which \<^verbatim>\<open>setHours\<close> sets, is in the previous UTC day, which
  \<^verbatim>\<open>toISOString\<close> prints.
\<close>

theorem day_series_counterexample:
  "[practiceJan5 600] \<noteq> []
   \<and> chartData 0 noonJan2 [practiceJan5 600] = []
   \<and> int (length (chartData 0 noonJan2 [practiceJan5 600]))
       \<noteq> isoDate noonJan2 - isoDate (Min (start ` set [practiceJan5 600])) + 1
   \<and> int (length (chartData 0 noonJan2 [practiceJan5 600]))
       \<noteq> \<bar>isoDate noonJan2 - isoDate (Min (start ` set [practiceJan5 600]))\<bar> + 1
   \<and> isoDate (Min (start ` set [practiceJan2 600])) = 20455
   \<and> isoDate noonJan2 = 20455
   \<and> map date (chartData oneHourEast noonJan2 [practiceJan2 600]) = [20454]
   \<and> map dailyPlay (chartData oneHourEast noonJan2 [practiceJan2 600]) = [0]"
  by (simp add: chartData_future_session chartData_one_hour_east isoDate_examples)

text \<open>
  C2, as the code has it. For a non-empty collection, the average of the \<open>N\<close>-th entry of
  the series is the sum of the totals of the first \<open>N\<close> days divided by \<open>N\<close>, and the total
  of a day is the sum of the durations of the sessions that start on that day, zero for a
  day without one. So the average of the last entry is the summed duration of the
  sessions that start on a day of the series, divided by the number of days. Where local
  time is UTC the days are those from the day of the earliest session through today; if
  no session is dated after today, the last average is the total summed duration divided
  by the number of these days; and if the collection spans two days, the second one
  today, with totals 600 and 0, the series has the averages 600 and 300.
\<close>

theorem cumulative_average_is_sum_over_days:
  assumes "sess \<noteq> []"
  shows "(\<forall>N. 1 \<le> N \<and> N \<le> length (chartData tz now sess) \<longrightarrow>
       average (chartData tz now sess ! (N - 1))
         = sum_list (map dailyPlay (take N (chartData tz now sess))) / real N)
   \<and> (\<forall>e \<in> set (chartData tz now sess).
         dailyPlay e = sum_list (map duration (filter (\<lambda>s. isoDate (start s) = date e) sess)))
   \<and> (chartData tz now sess \<noteq> [] \<longrightarrow>
       average (last (chartData tz now sess))
         = sum_list (map duration
             (filter (\<lambda>s. isoDate (start s) \<in> set (map date (chartData tz now sess))) sess))
           / real (length (chartData tz now sess)))
   \<and> map date (chartData 0 now sess) = [isoDate (Min (start ` set sess)) .. isoDate now]
   \<and> ((\<forall>s \<in> set sess. isoDate (start s) \<le> isoDate now) \<longrightarrow>
       average (last (chartData 0 now sess))
         = sum_list (map duration sess)
           / real_of_int (isoDate now - isoDate (Min (start ` set sess)) + 1))
   \<and> (isoDate now = isoDate (Min (start ` set sess)) + 1
        \<and> sum_list (map duration
             (filter (\<lambda>s. isoDate (start s) = isoDate (Min (start ` set sess))) sess)) = 600
        \<and> sum_list (map duration (filter (\<lambda>s. isoDate (start s) = isoDate now) sess)) = 0 \<longrightarrow>
       chartData 0 now sess
         = [\<lparr>date = isoDate (Min (start ` set sess)), average = 600, dailyPlay = 600\<rparr>,
            \<lparr>date = isoDate now, average = 300, dailyPlay = 0\<rparr>])"
proof (intro conjI allI impI ballI)
  fix N
  assume "1 \<le> N \<and> N \<le> length (chartData tz now sess)"
  then show "average (chartData tz now sess ! (N - 1))
         = sum_list (map dailyPlay (take N (chartData tz now sess))) / real N"
    by (elim conjE) (rule chartData_nth_average)
next
  fix e
  assume "e \<in> set (chartData tz now sess)"
  with assms show "dailyPlay e
      = sum_list (map duration (filter (\<lambda>s. isoDate (start s) = date e) sess))"
    by (rule chartData_dailyPlay)
next
  assume "chartData tz now sess \<noteq> []"
  then show "average (last (chartData tz now sess))
         = sum_list (map duration
             (filter (\<lambda>s. isoDate (start s) \<in> set (map date (chartData tz now sess))) sess))
           / real (length (chartData tz now sess))"
    by (rule chartData_last_average_in_series)
next
  from assms show "map date (chartData 0 now sess) = [isoDate (Min (start ` set sess)) .. isoDate now]"
    by (rule chartData_utc_dates)
next
  assume "\<forall>s \<in> set sess. isoDate (start s) \<le> isoDate now"
  with assms show "average (last (chartData 0 now sess))
         = sum_list (map duration sess)
           / real_of_int (isoDate now - isoDate (Min (start ` set sess)) + 1)"
    by (rule chartData_utc_last_average)
next
  assume two: "isoDate now = isoDate (Min (start ` set sess)) + 1
        \<and> sum_list (map duration
             (filter (\<lambda>s. isoDate (start s) = isoDate (Min (start ` set sess))) sess)) = 600
        \<and> sum_list (map duration (filter (\<lambda>s. isoDate (start s) = isoDate now) sess)) = 0"
  then have today: "isoDate now = isoDate (Min (start ` set sess)) + 1"
    and one: "sum_list (map duration
        (filter (\<lambda>s. isoDate (start s) = isoDate (Min (start ` set sess))) sess)) = 600"
    and none: "sum_list (map duration (filter (\<lambda>s. isoDate (start s) = isoDate now) sess)) = 0"
    by blast+
  have half: "(600 + 0) / 2 = (300::real)" by simp
  from chartData_utc_two_days [OF assms today one none]
  show "chartData 0 now sess
         = [\<lparr>date = isoDate (Min (start ` set sess)), average = 600, dailyPlay = 600\<rparr>,
            \<lparr>date = isoDate now, average = 300, dailyPlay = 0\<rparr>]"
    by (simp only: half)
qed

theorem cumulative_average_is_sum_over_days_witness:
  "[practiceJan1 600, practiceJan2 0] \<noteq> []
   \<and> (1::nat) \<le> 2 \<and> 2 \<le> length (chartData 0 noonJan2 [practiceJan1 600, practiceJan2 0])
   \<and> isoDate (start (practiceJan1 600)) \<le> isoDate noonJan2
   \<and> isoDate (start (practiceJan2 0)) \<le> isoDate noonJan2
   \<and> isoDate noonJan2 = isoDate (Min (start ` set [practiceJan1 600, practiceJan2 0])) + 1
   \<and> sum_list (map duration (filter (\<lambda>s. isoDate (start s) = 20454)
        [practiceJan1 600, practiceJan2 0])) = 600
   \<and> sum_list (map duration (filter (\<lambda>s. isoDate (start s) = 20455)
        [practiceJan1 600, practiceJan2 0])) = 0
   \<and> chartData 0 noonJan2 [practiceJan1 600, practiceJan2 0]
       = [\<lparr>date = 20454, average = 600, dailyPlay = 600\<rparr>,
          \<lparr>date = 20455, average = 300, dailyPlay = 0\<rparr>]
   \<and> average (last (chartData 0 noonJan2 [practiceJan1 600, practiceJan2 0])) = (600 + 0) / 2"
proof -
  have first: "isoDate (Min (start ` set [practiceJan1 600, practiceJan2 0])) = 20454"
    by (simp add: practiceJan1_def practiceJan2_def isoDate_def msPerDay_def)
  from cumulative_average_is_sum_over_days [of "[practiceJan1 600, practiceJan2 0]" 0 noonJan2]
  show ?thesis
    by (simp only: first) (simp add: isoDate_examples duration_examples)
qed

text \<open>
  The claim as written divides the total summed duration by the number of days. With a
  session of 600 seconds on 2026-01-01, a session of 999 seconds on 2026-01-05 and the
  clock on 2026-01-03, the series has three days and the later session is on none of
  them: the last average is 600 / 3 = 200, the total summed duration divided by the
  number of days is 1599 / 3 = 533.
\<close>

theorem cumulative_average_counterexample:
  "[practiceJan1 600, practiceJan5 999] \<noteq> []
   \<and> map dailyPlay (chartData 0 noonJan3 [practiceJan1 600, practiceJan5 999]) = [600, 0, 0]
   \<and> average (last (chartData 0 noonJan3 [practiceJan1 600, practiceJan5 999])) = 200
   \<and> sum_list (map duration [practiceJan1 600, practiceJan5 999])
        / real (length (chartData 0 noonJan3 [practiceJan1 600, practiceJan5 999])) = 533
   \<and> average (last (chartData 0 noonJan3 [practiceJan1 600, practiceJan5 999]))
       \<noteq> sum_list (map duration [practiceJan1 600, practiceJan5 999])
           / real (length (chartData 0 noonJan3 [practiceJan1 600, practiceJan5 999]))"
  by (simp add: chartData_session_after_today duration_examples)

text \<open>
  C9. The series of the empty collection is empty, and so is what every range selection
  filters from it.
\<close>

theorem empty_collection_gives_empty_series:
  "chartData tz now [] = [] \<and> filteredData z now' activeTab (chartData tz now []) = []"
  by (simp add: chartData_def filteredData_def)

section \<open>The range filter\<close>

text \<open>
  The day of the month on 2024-02-28, 2024-02-29, 2024-03-01, 2025-12-31, 2026-01-01 and
  2026-11-01, each at midnight UTC.
\<close>

lemma DateFromTime_examples:
  "map (\<lambda>d. DateFromTime (d * msPerDay)) [19781, 19782, 19783, 20453, 20454, 20758]
     = [28, 29, 1, 31, 1, 1]"
  by code_simp

lemma Day_TimeWithinDay: "Day t * msPerDay + TimeWithinDay t = t"
  by (simp add: Day_def TimeWithinDay_def)

text \<open>
  Setting the day of the month to today's minus \<open>n\<close> moves the local time back by \<open>n\<close>
  days and keeps the local time of day, whatever the month.
\<close>

lemma setDate_getDate:
  "setDate z t (getDate z t - n) = UTC z (LocalTime z t - n * msPerDay)"
proof -
  let ?lt = "LocalTime z t"
  have "(Day ?lt - DateFromTime ?lt + 1 + (DateFromTime ?lt - n) - 1) * msPerDay + TimeWithinDay ?lt
      = (Day ?lt * msPerDay + TimeWithinDay ?lt) - n * msPerDay"
    by (simp add: algebra_simps)
  then show ?thesis
    by (simp add: setDate_def getDate_def Let_def Day_TimeWithinDay)
qed

lemma filteredData_cutoff:
  assumes "activeTab \<noteq> ''MAX''"
  shows "filteredData z now activeTab cd
    = filter (\<lambda>d. date d
         \<ge> isoDate (UTC z (LocalTime z now - daysToSubtract activeTab * msPerDay))) cd"
  using assms by (cases cd) (simp_all add: filteredData_def setDate_getDate)

lemma isoDate_days_before:
  assumes "offsetOfLocal z (LocalTime z now - n * msPerDay) = offsetAt z now"
  shows "isoDate (UTC z (LocalTime z now - n * msPerDay)) = isoDate now - n"
proof -
  have "UTC z (LocalTime z now - n * msPerDay) = now - n * msPerDay"
    using assms by (simp add: UTC_def) (simp add: LocalTime_def)
  then show ?thesis
    by (simp add: isoDate_def msPerDay_def)
qed

lemma daysToSubtract_tabs:
  "daysToSubtract ''1D'' = 1" "daysToSubtract ''7D'' = 7"
  "daysToSubtract ''30D'' = 30" "daysToSubtract ''1Y'' = 365"
  by (simp_all add: daysToSubtract_def)

lemma filteredData_examples:
  "filteredData newYork2026 halfPastMidnightNov2 ''1D'' threeDaySeries = threeDaySeries"
  "filteredData utcZone halfPastMidnightNov2 ''1D'' threeDaySeries = tl threeDaySeries"
  "isoDate halfPastMidnightNov2 = 20759"
  "LocalTime newYork2026 halfPastMidnightNov2 = 1793561400000"
  "getDate newYork2026 halfPastMidnightNov2 = 1"
  "setDate newYork2026 halfPastMidnightNov2 0 = 1793489400000"
  "isoDate (setDate newYork2026 halfPastMidnightNov2 0) = 20757"
  by code_simp+

text \<open>
  C4, as the code has it. The selection MAX returns the series as it is. The selections
  1D, 7D, 30D and 1Y, windows of \<open>n\<close> = 1, 7, 30 and 365 days, return the entries whose date
  is not before today minus \<open>n\<close> days, in the order of the series, where today is the UTC
  day of the clock and the time zone has, \<open>n\<close> local days before the clock, the offset it
  has at the clock.
\<close>

theorem filteredData_windows:
  "filteredData z now ''MAX'' cd = cd
   \<and> ((activeTab, n) \<in> set [(''1D'', 1), (''7D'', 7), (''30D'', 30), (''1Y'', 365)]
        \<and> offsetOfLocal z (LocalTime z now - n * msPerDay) = offsetAt z now \<longrightarrow>
      filteredData z now activeTab cd = filter (\<lambda>d. date d \<ge> isoDate now - n) cd)"
proof (intro conjI impI)
  show "filteredData z now ''MAX'' cd = cd"
    by (cases cd) (simp_all add: filteredData_def)
next
  assume window: "(activeTab, n) \<in> set [(''1D'', 1), (''7D'', 7), (''30D'', 30), (''1Y'', 365)]
        \<and> offsetOfLocal z (LocalTime z now - n * msPerDay) = offsetAt z now"
  then have tab: "activeTab \<noteq> ''MAX''" and days: "daysToSubtract activeTab = n"
    by (auto simp: daysToSubtract_tabs)
  from window have "isoDate (UTC z (LocalTime z now - n * msPerDay)) = isoDate now - n"
    by (intro isoDate_days_before) simp
  with filteredData_cutoff [OF tab, of z now cd] days
  show "filteredData z now activeTab cd = filter (\<lambda>d. date d \<ge> isoDate now - n) cd"
    by simp
qed

theorem filteredData_windows_witness:
  "(''1D'', 1) \<in> set [(''1D'', 1), (''7D'', 7), (''30D'', 30), (''1Y'', 365::int)]
   \<and> offsetOfLocal utcZone (LocalTime utcZone halfPastMidnightNov2 - 1 * msPerDay)
       = offsetAt utcZone halfPastMidnightNov2
   \<and> filteredData utcZone halfPastMidnightNov2 ''1D'' threeDaySeries
       = [\<lparr>date = 20758, average = 300, dailyPlay = 0\<rparr>,
          \<lparr>date = 20759, average = 200, dailyPlay = 0\<rparr>]
   \<and> offsetOfLocal newYork2026
         (LocalTime newYork2026 (halfPastMidnightNov2 + msPerDay) - 1 * msPerDay)
       = offsetAt newYork2026 (halfPastMidnightNov2 + msPerDay)
   \<and> filteredData newYork2026 (halfPastMidnightNov2 + msPerDay) ''1D'' threeDaySeries
       = [\<lparr>date = 20759, average = 200, dailyPlay = 0\<rparr>]"
  using filteredData_windows [of utcZone halfPastMidnightNov2 threeDaySeries "''1D''" 1]
    filteredData_windows [of newYork2026 "halfPastMidnightNov2 + msPerDay" threeDaySeries
      "''1D''" 1]
  by (simp add: utcZone_def newYork2026_def LocalTime_def msPerDay_def
      isoDate_def halfPastMidnightNov2_def threeDaySeries_def)

text \<open>
  The claim as written is about every clock in every zone. In New York at
  2026-11-02T00:30Z, which is 19:30 on 1 November local time, the selection 1D sets the
  local date to 31 October,
  still in summer time: the cutoff is 2026-10-31T23:30Z, and the entry dated 2026-10-31
  is kept although today minus one day is 2026-11-01.
\<close>

theorem filteredData_windows_counterexample:
  "isoDate halfPastMidnightNov2 - 1 = 20758
   \<and> filter (\<lambda>d. date d \<ge> isoDate halfPastMidnightNov2 - 1) threeDaySeries
       = [\<lparr>date = 20758, average = 300, dailyPlay = 0\<rparr>,
          \<lparr>date = 20759, average = 200, dailyPlay = 0\<rparr>]
   \<and> filteredData newYork2026 halfPastMidnightNov2 ''1D'' threeDaySeries
       = [\<lparr>date = 20757, average = 600, dailyPlay = 600\<rparr>,
          \<lparr>date = 20758, average = 300, dailyPlay = 0\<rparr>,
          \<lparr>date = 20759, average = 200, dailyPlay = 0\<rparr>]
   \<and> filteredData newYork2026 halfPastMidnightNov2 ''1D'' threeDaySeries
       \<noteq> filter (\<lambda>d. date d \<ge> isoDate halfPastMidnightNov2 - 1) threeDaySeries"
  by (simp add: filteredData_examples) (simp add: threeDaySeries_def)

section \<open>The trend indicator\<close>

lemma startPrice_hd: "fd \<noteq> [] \<Longrightarrow> startPrice fd = average (hd fd)"
  by (simp add: startPrice_def hd_conv_nth)

lemma currentPrice_last: "fd \<noteq> [] \<Longrightarrow> currentPrice fd = average (last fd)"
  by (simp add: currentPrice_def last_conv_nth)

lemma toFixed0_nearest: "0 \<le> x \<Longrightarrow> \<bar>real (toFixed0 x) - x\<bar> \<le> 1 / 2"
proof -
  assume "0 \<le> x"
  then have "0 \<le> \<lfloor>x + 1 / 2\<rfloor>" by simp
  then have "real (toFixed0 x) = of_int \<lfloor>x + 1 / 2\<rfloor>"
    by (simp add: toFixed0_def)
  then show ?thesis by linarith
qed

text \<open>
  C5, as the code has it. For a non-empty filtered series the indicator compares the
  average of the first entry with the average of the last. When the last is not below the
  first the chart colour, the headline and the delta pill are green with the arrow
  pointing up; when it is below they are red with the arrow pointing down. The pill, which
  is rendered while no data point is hovered, shows the magnitude of the difference
  rounded to a whole number of seconds (at most one half away from it), followed by the
  selected tab. First value 300 and last value 200 render red with the text ``100s''.
\<close>

theorem trend_indicator:
  assumes "fd \<noteq> []"
  shows "startPrice fd = average (hd fd) \<and> currentPrice fd = average (last fd)
    \<and> (average (hd fd) \<le> average (last fd) \<longrightarrow>
          color fd = ''#22c55e'' \<and> headlineClass None fd = ''text-green-500''
          \<and> deltaPill None activeTab fd
              = Some \<lparr>pill_class = ''text-green-400'', pill_icon = ArrowUpRight,
                      pill_text = digits (toFixed0 \<bar>average (last fd) - average (hd fd)\<bar>)
                                    @ ''s '' @ activeTab\<rparr>)
    \<and> (average (last fd) < average (hd fd) \<longrightarrow>
          color fd = ''#ef4444'' \<and> headlineClass None fd = ''text-red-500''
          \<and> deltaPill None activeTab fd
              = Some \<lparr>pill_class = ''text-red-400'', pill_icon = ArrowDownRight,
                      pill_text = digits (toFixed0 \<bar>average (last fd) - average (hd fd)\<bar>)
                                    @ ''s '' @ activeTab\<rparr>)
    \<and> \<bar>real (toFixed0 \<bar>average (last fd) - average (hd fd)\<bar>)
          - \<bar>average (last fd) - average (hd fd)\<bar>\<bar> \<le> 1 / 2
    \<and> (average (hd fd) = 300 \<and> average (last fd) = 200 \<longrightarrow>
          color fd = ''#ef4444''
          \<and> deltaPill None activeTab fd
              = Some \<lparr>pill_class = ''text-red-400'', pill_icon = ArrowDownRight,
                      pill_text = ''100s '' @ activeTab\<rparr>)"
proof -
  note prices = startPrice_hd [OF assms] currentPrice_last [OF assms]
  have up: "color fd = ''#22c55e'' \<and> headlineClass None fd = ''text-green-500''
          \<and> deltaPill None activeTab fd
              = Some \<lparr>pill_class = ''text-green-400'', pill_icon = ArrowUpRight,
                      pill_text = digits (toFixed0 \<bar>average (last fd) - average (hd fd)\<bar>)
                                    @ ''s '' @ activeTab\<rparr>"
    if "average (hd fd) \<le> average (last fd)"
    using that
    by (simp add: color_def headlineClass_def deltaPill_def deltaShown_def isProfit_def prices)
  have down: "color fd = ''#ef4444'' \<and> headlineClass None fd = ''text-red-500''
          \<and> deltaPill None activeTab fd
              = Some \<lparr>pill_class = ''text-red-400'', pill_icon = ArrowDownRight,
                      pill_text = digits (toFixed0 \<bar>average (last fd) - average (hd fd)\<bar>)
                                    @ ''s '' @ activeTab\<rparr>"
    if "average (last fd) < average (hd fd)"
    using that
    by (simp add: color_def headlineClass_def deltaPill_def deltaShown_def isProfit_def prices)
  have near: "\<bar>real (toFixed0 \<bar>average (last fd) - average (hd fd)\<bar>)
          - \<bar>average (last fd) - average (hd fd)\<bar>\<bar> \<le> 1 / 2"
    by (rule toFixed0_nearest) simp
  have hundred: "toFixed0 100 = 100"
    by (simp add: toFixed0_def)
  have scenario: "color fd = ''#ef4444''
          \<and> deltaPill None activeTab fd
              = Some \<lparr>pill_class = ''text-red-400'', pill_icon = ArrowDownRight,
                      pill_text = ''100s '' @ activeTab\<rparr>"
    if "average (hd fd) = 300 \<and> average (last fd) = 200"
  proof -
    from that have "average (last fd) < average (hd fd)" by simp
    from down [OF this] that show ?thesis
      by (simp add: hundred digits_examples)
  qed
  from prices up down near scenario show ?thesis by blast
qed

theorem trend_indicator_witness:
  "[\<lparr>date = 20454, average = 300, dailyPlay = 300\<rparr>,
    \<lparr>date = 20455, average = 200, dailyPlay = 100\<rparr>] \<noteq> []
   \<and> average (last [\<lparr>date = 20454, average = 300, dailyPlay = 300\<rparr>,
                     \<lparr>date = 20455, average = 200, dailyPlay = 100\<rparr>])
       < average (hd [\<lparr>date = 20454, average = 300, dailyPlay = 300\<rparr>,
                      \<lparr>date = 20455, average = 200, dailyPlay = 100\<rparr>])
   \<and> deltaPill None ''7D'' [\<lparr>date = 20454, average = 300, dailyPlay = 300\<rparr>,
                             \<lparr>date = 20455, average = 200, dailyPlay = 100\<rparr>]
       = Some \<lparr>pill_class = ''text-red-400'', pill_icon = ArrowDownRight, pill_text = ''100s 7D''\<rparr>
   \<and> average (hd [\<lparr>date = 20454, average = 200, dailyPlay = 200\<rparr>,
                   \<lparr>date = 20455, average = 250, dailyPlay = 300\<rparr>])
       \<le> average (last [\<lparr>date = 20454, average = 200, dailyPlay = 200\<rparr>,
                         \<lparr>date = 20455, average = 250, dailyPlay = 300\<rparr>])
   \<and> color [\<lparr>date = 20454, average = 200, dailyPlay = 200\<rparr>,
             \<lparr>date = 20455, average = 250, dailyPlay = 300\<rparr>] = ''#22c55e''"
  using trend_indicator [of "[\<lparr>date = 20454, average = 300, dailyPlay = 300\<rparr>,
                              \<lparr>date = 20455, average = 200, dailyPlay = 100\<rparr>]" "''7D''"]
    trend_indicator [of "[\<lparr>date = 20454, average = 200, dailyPlay = 200\<rparr>,
                         \<lparr>date = 20455, average = 250, dailyPlay = 300\<rparr>]" "''7D''"]
  by (simp add: toFixed0_def digits_examples)

text \<open>
  The claim as written gives the displayed magnitude as the difference itself. For one
  session of 100 seconds on 2026-01-01 seen on 2026-01-03 the averages are 100, 50 and
  100/3: the difference is 200/3 and the pill shows 67.
\<close>

theorem trend_indicator_counterexample:
  "filteredData utcZone noonJan3 ''MAX'' (chartData 0 noonJan3 [practiceJan1 100]) \<noteq> []
   \<and> \<bar>currentPrice (filteredData utcZone noonJan3 ''MAX'' (chartData 0 noonJan3 [practiceJan1 100]))
        - startPrice (filteredData utcZone noonJan3 ''MAX'' (chartData 0 noonJan3 [practiceJan1 100]))\<bar>
       = 200 / 3
   \<and> deltaShown (filteredData utcZone noonJan3 ''MAX'' (chartData 0 noonJan3 [practiceJan1 100])) = 67
   \<and> real (deltaShown (filteredData utcZone noonJan3 ''MAX'' (chartData 0 noonJan3 [practiceJan1 100])))
       \<noteq> \<bar>currentPrice (filteredData utcZone noonJan3 ''MAX'' (chartData 0 noonJan3 [practiceJan1 100]))
           - startPrice (filteredData utcZone noonJan3 ''MAX'' (chartData 0 noonJan3 [practiceJan1 100]))\<bar>
   \<and> deltaPill None ''MAX'' (filteredData utcZone noonJan3 ''MAX'' (chartData 0 noonJan3 [practiceJan1 100]))
       = Some \<lparr>pill_class = ''text-red-400'', pill_icon = ArrowDownRight, pill_text = ''67s MAX''\<rparr>"
  by (simp add: chartData_three_days filteredData_def startPrice_def currentPrice_def
      deltaShown_def toFixed0_def deltaPill_def isProfit_def digits_examples)

end
